theory Spec2Isabelle
  imports Complex_Main "HOL-Library.Sublist" "HOL-Library.Multiset"
begin

section \<open>Sentiment tracker: the analysis pipeline of twitter.py\<close>

text \<open>
  The program is one Streamlit script. It keeps two data frames in the session state
  (\<^verbatim>\<open>tweets_df\<close>, the corpus, and \<^verbatim>\<open>analysis_df\<close>, the last analysis result), and on
  every interaction it runs top to bottom: the sidebar (which may add a tweet), the
  analysis run (keyword filter, classification, sort by time) and the main content
  (totals, mean polarity, label counts, trending words, top positive and negative).

  Conventions of the embedding:
  \<^item> a Python \<^verbatim>\<open>str\<close> is a \<^typ>\<open>string\<close> whose characters are code points below 256;
  \<^item> a \<^verbatim>\<open>datetime\<close> is an \<^typ>\<open>int\<close> (a point on a discrete time line);
  \<^item> a Python \<^verbatim>\<open>float\<close> is a \<^typ>\<open>real\<close>: comparisons of floats are exact, the
    rounding of sums and quotients is abstracted;
  \<^item> the polarity classifier (TextBlob) is a parameter \<open>classify\<close> of the pipeline;
  \<^item> a data frame is the list of its rows, in row order; the row labels (the index)
    are not modelled, no operation of the script reads them.
\<close>

subsection \<open>Characters: whitespace and case\<close>

text \<open>\<^verbatim>\<open>str.isspace\<close> on one character, for code points below 256.\<close>

definition isspace :: "char \<Rightarrow> bool" where
  "isspace c = (of_char c \<in> {9, 10, 11, 12, 13, 28, 29, 30, 31, 32, 133, 160 :: nat})"

text \<open>
  The simple lower-case mapping of a code point below 256, as \<^verbatim>\<open>re.IGNORECASE\<close> uses
  it: A to Z and the upper-case letters of Latin-1 (0xC0 to 0xDE without the
  multiplication sign 0xD7) move up by 32, everything else stays.
\<close>

definition lower :: "char \<Rightarrow> char" where
  "lower c =
     (let n = of_char c :: nat
      in if (65 \<le> n \<and> n \<le> 90) \<or> (192 \<le> n \<and> n \<le> 222 \<and> n \<noteq> 215)
         then char_of (n + 32) else c)"

subsection \<open>The keyword as a regular expression\<close>

text \<open>
  \<^verbatim>\<open>df['text'].str.contains(keyword, case=False)\<close> leaves pandas' parameter
  \<^verbatim>\<open>regex\<close> at its default \<^verbatim>\<open>True\<close>: the keyword is compiled with
  \<^verbatim>\<open>re.compile(keyword, re.IGNORECASE)\<close> and a row is selected when
  \<^verbatim>\<open>search\<close> finds a match anywhere in its text.

  The embedding covers the patterns built from ordinary characters and the dot.
  The special characters of Python's pattern syntax are \<^verbatim>\<open>. \ [ { ( ) * + ? ^ $ |\<close>;
  every other character is a literal that matches itself up to case, and the dot
  matches any character but the newline. A pattern that begins with a repetition
  sign has nothing to repeat and \<^verbatim>\<open>re.compile\<close> raises. Any other use of a special
  character is outside the fragment, and the embedding says so explicitly
  (\<open>NotModelled\<close>) rather than guessing.
\<close>

datatype failure
  = ReError       \<comment> \<open>\<^verbatim>\<open>re.error\<close>, raised by \<^verbatim>\<open>re.compile\<close>\<close>
  | KeyError      \<comment> \<open>a column is read from a frame that does not have it\<close>
  | NotModelled   \<comment> \<open>the keyword uses pattern syntax beyond literals and the dot\<close>

datatype atom = Literal char | AnyChar

definition special_chars :: string where
  "special_chars =
     [CHR ''.'', CHR 0x5C, CHR ''['', CHR ''{'', CHR ''('', CHR '')'',
      CHR ''*'', CHR ''+'', CHR ''?'', CHR ''^'', CHR ''$'', CHR ''|'']"

definition repeat_chars :: string where
  "repeat_chars = [CHR ''*'', CHR ''+'', CHR ''?'']"

fun parse_atoms :: "string \<Rightarrow> atom list option" where
  "parse_atoms [] = Some []"
| "parse_atoms (c # cs) =
     (if c = CHR ''.'' then map_option (Cons AnyChar) (parse_atoms cs)
      else if c \<in> set special_chars then None
      else map_option (Cons (Literal c)) (parse_atoms cs))"

definition re_compile :: "string \<Rightarrow> failure + atom list" where
  "re_compile pat =
     (if pat \<noteq> [] \<and> hd pat \<in> set repeat_chars then Inl ReError
      else case parse_atoms pat of None \<Rightarrow> Inl NotModelled | Some atoms \<Rightarrow> Inr atoms)"

fun atom_matches :: "atom \<Rightarrow> char \<Rightarrow> bool" where
  "atom_matches (Literal p) c = (lower c = lower p)"
| "atom_matches AnyChar c = (c \<noteq> CHR 0x0A)"

text \<open>\<^verbatim>\<open>match\<close>: the pattern matches at the start of the text.\<close>

fun match_here :: "atom list \<Rightarrow> string \<Rightarrow> bool" where
  "match_here [] s = True"
| "match_here (a # atoms) [] = False"
| "match_here (a # atoms) (c # s) = (atom_matches a c \<and> match_here atoms s)"

text \<open>\<^verbatim>\<open>search\<close>: the pattern matches at some position of the text.\<close>

fun re_search :: "atom list \<Rightarrow> string \<Rightarrow> bool" where
  "re_search atoms [] = match_here atoms []"
| "re_search atoms (c # s) = (match_here atoms (c # s) \<or> re_search atoms s)"

subsection \<open>Rows and frames\<close>

text \<open>
  The corpus has the columns \<^verbatim>\<open>created_at\<close> and \<^verbatim>\<open>text\<close>. The analysis adds
  \<^verbatim>\<open>Polarity\<close> and \<^verbatim>\<open>Sentiment\<close> (line 95), then \<^verbatim>\<open>Time\<close> (line 96).
\<close>

datatype label = Positive | Negative | Neutral

record tweet =
  created_at :: int
  "text" :: string

record scored = tweet +
  Polarity :: real
  Sentiment :: label

record timed = scored +
  Time :: int

subsection \<open>Keyword filter (line 85)\<close>

text \<open>
  \<^verbatim>\<open>df[df['text'].str.contains(keyword, case=False)].head(tweet_count)\<close>.
  The pattern is compiled once, before any row is looked at; \<^verbatim>\<open>head(n)\<close> keeps
  the first \<open>n\<close> rows (the slider gives \<open>n\<close> between 50 and 500).
\<close>

definition keyword_filter :: "string \<Rightarrow> nat \<Rightarrow> tweet list \<Rightarrow> failure + tweet list" where
  "keyword_filter keyword tweet_count df =
     (case re_compile keyword of
        Inl e \<Rightarrow> Inl e
      | Inr pat \<Rightarrow> Inr (take tweet_count (filter (\<lambda>r. re_search pat (text r)) df)))"

subsection \<open>Sentiment labeler (lines 89 to 93)\<close>

text \<open>
  \<^verbatim>\<open>"Positive" if pol > sentiment_threshold else "Negative" if pol < -sentiment_threshold else "Neutral"\<close>
\<close>

definition sentiment_of :: "real \<Rightarrow> real \<Rightarrow> label" where
  "sentiment_of pol sentiment_threshold =
     (if pol > sentiment_threshold then Positive
      else if pol < - sentiment_threshold then Negative
      else Neutral)"

definition analyze :: "(string \<Rightarrow> real) \<Rightarrow> real \<Rightarrow> tweet \<Rightarrow> scored" where
  "analyze classify sentiment_threshold row =
     (let pol = classify (text row);
          sent = sentiment_of pol sentiment_threshold
      in \<lparr>created_at = created_at row, text = text row, Polarity = pol, Sentiment = sent\<rparr>)"

subsection \<open>Sorting a frame by a column\<close>

text \<open>
  \<^verbatim>\<open>df.sort_values(col)\<close> and \<^verbatim>\<open>df.sort_values(col, ascending=False)\<close>, and
  Python's \<^verbatim>\<open>sorted(xs, key=col, reverse=True)\<close>. A descending sort reverses the
  input, sorts it ascending and reverses the result, in pandas as in CPython.

  pandas sorts with numpy's \<^verbatim>\<open>quicksort\<close> unless told otherwise, and that kind
  promises no order among rows with equal keys. The embedding takes the stable
  order (the one numpy's insertion sort produces on short inputs); what is proved
  of \<^verbatim>\<open>sort_values\<close> for the claims below (sortedness, the rows kept) does not
  depend on that choice. Python's \<^verbatim>\<open>sorted\<close> is stable by contract.
\<close>

definition sort_values :: "('a \<Rightarrow> 'k::linorder) \<Rightarrow> bool \<Rightarrow> 'a list \<Rightarrow> 'a list" where
  "sort_values col ascending df =
     (if ascending then sort_key col df else rev (sort_key col (rev df)))"

subsection \<open>Trending words (lines 145 and 146)\<close>

text \<open>
  \<^verbatim>\<open>t.split()\<close>: the maximal runs of characters that are not whitespace. The
  first argument is the token read so far.
\<close>

fun split_acc :: "string \<Rightarrow> string \<Rightarrow> string list" where
  "split_acc w [] = (if w = [] then [] else [w])"
| "split_acc w (c # cs) =
     (if isspace c then (if w = [] then split_acc [] cs else w # split_acc [] cs)
      else split_acc (w @ [c]) cs)"

definition split :: "string \<Rightarrow> string list" where
  "split t = split_acc [] t"

definition startswith :: "string \<Rightarrow> string \<Rightarrow> bool" where
  "startswith w p = prefix p w"

text \<open>
  \<^verbatim>\<open>[w for t in df['text'] for w in t.split() if not w.startswith("http")]\<close>
\<close>

definition words :: "timed list \<Rightarrow> string list" where
  "words df = [w. t \<leftarrow> map text df, w \<leftarrow> split t, \<not> startswith w ''http'']"

text \<open>
  \<^verbatim>\<open>Counter(words)\<close>: a dictionary from each word to its number of occurrences.
  A Python dictionary keeps its keys in the order in which they were first
  inserted, so it is an association list here; \<open>incr\<close> is
  \<^verbatim>\<open>d[x] = d.get(x, 0) + 1\<close>.
\<close>

fun incr :: "'a \<Rightarrow> ('a \<times> nat) list \<Rightarrow> ('a \<times> nat) list" where
  "incr x [] = [(x, 1)]"
| "incr x ((k, n) # d) = (if k = x then (k, n + 1) # d else (k, n) # incr x d)"

definition Counter :: "'a list \<Rightarrow> ('a \<times> nat) list" where
  "Counter xs = foldl (\<lambda>d x. incr x d) [] xs"

text \<open>
  \<^verbatim>\<open>most_common(n)\<close> is \<^verbatim>\<open>heapq.nlargest(n, d.items(), key=itemgetter(1))\<close>, which
  the library documents as \<^verbatim>\<open>sorted(d.items(), key=itemgetter(1), reverse=True)[:n]\<close>.
\<close>

definition most_common :: "nat \<Rightarrow> ('a \<times> nat) list \<Rightarrow> ('a \<times> nat) list" where
  "most_common n d = take n (sort_values snd False d)"

definition trending_words :: "timed list \<Rightarrow> (string \<times> nat) list" where
  "trending_words df = most_common 10 (Counter (words df))"

subsection \<open>Totals (lines 105 to 107, 113, 114, 129)\<close>

definition mean :: "real list \<Rightarrow> real" where
  "mean xs = sum_list xs / real (length xs)"

text \<open>
  \<^verbatim>\<open>df['Sentiment'].value_counts()\<close>: the number of rows per label, most frequent
  first; \<^verbatim>\<open>counts.get(k, 0)\<close> reads one of them.
\<close>

definition value_counts :: "'a list \<Rightarrow> ('a \<times> nat) list" where
  "value_counts xs = sort_values snd False (Counter xs)"

definition get :: "('a \<times> 'b) list \<Rightarrow> 'a \<Rightarrow> 'b \<Rightarrow> 'b" where
  "get d k dflt = (case map_of d k of None \<Rightarrow> dflt | Some v \<Rightarrow> v)"

subsection \<open>Top positive and top negative (lines 150 and 153)\<close>

text \<open>
  \<^verbatim>\<open>df[df['Sentiment']=="Positive"].sort_values('Polarity',ascending=False).head(5)\<close>
  and \<^verbatim>\<open>df[df['Sentiment']=="Negative"].sort_values('Polarity').head(5)\<close>, each
  shown with the columns \<^verbatim>\<open>Time\<close>, \<^verbatim>\<open>text\<close> and \<^verbatim>\<open>Polarity\<close>.
\<close>

definition top_positive :: "timed list \<Rightarrow> timed list" where
  "top_positive df =
     take 5 (sort_values Polarity False (filter (\<lambda>r. Sentiment r = Positive) df))"

definition top_negative :: "timed list \<Rightarrow> timed list" where
  "top_negative df =
     take 5 (sort_values Polarity True (filter (\<lambda>r. Sentiment r = Negative) df))"

definition shown_columns :: "timed \<Rightarrow> int \<times> string \<times> real" where
  "shown_columns r = (Time r, text r, Polarity r)"

subsection \<open>The summary shown by the main content (lines 103 to 153)\<close>

record summary =
  total :: nat
  avg_pol :: real
  counts :: "(label \<times> nat) list"
  freq :: "(string \<times> nat) list"
  shown_positive :: "(int \<times> string \<times> real) list"
  shown_negative :: "(int \<times> string \<times> real) list"

definition summarise :: "timed list \<Rightarrow> summary" where
  "summarise df =
     \<lparr>total = length df,
      avg_pol = mean (map Polarity df),
      counts = value_counts (map Sentiment df),
      freq = trending_words df,
      shown_positive = map shown_columns (top_positive df),
      shown_negative = map shown_columns (top_negative df)\<rparr>"

subsection \<open>Session state and the objects it refers to\<close>

text \<open>
  A data frame is an object: \<^verbatim>\<open>df = st.session_state.tweets_df\<close> makes \<^verbatim>\<open>df\<close>
  another name of the corpus, and the assignments of lines 95 and 96 change the
  object \<^verbatim>\<open>df\<close> names at that point. The store maps addresses to frames; a
  frame has one of four shapes, by the columns it carries.
\<close>

datatype frame
  = Blank                  \<comment> \<open>\<^verbatim>\<open>pd.DataFrame()\<close>: no column, no row\<close>
  | Raw "tweet list"       \<comment> \<open>\<^verbatim>\<open>created_at\<close>, \<^verbatim>\<open>text\<close>\<close>
  | Scored "scored list"   \<comment> \<open>and \<^verbatim>\<open>Polarity\<close>, \<^verbatim>\<open>Sentiment\<close>\<close>
  | Timed "timed list"     \<comment> \<open>and \<^verbatim>\<open>Time\<close>\<close>

fun frame_empty :: "frame \<Rightarrow> bool" where
  "frame_empty Blank = True"
| "frame_empty (Raw df) = (df = [])"
| "frame_empty (Scored df) = (df = [])"
| "frame_empty (Timed df) = (df = [])"

type_synonym addr = nat

record state =
  heap :: "addr \<Rightarrow> frame"
  fresh :: addr
  tweets_df :: addr
  analysis_df :: addr

text \<open>A new object, at an address that no name holds yet.\<close>

definition alloc :: "frame \<Rightarrow> state \<Rightarrow> addr \<times> state" where
  "alloc f s = (fresh s, s\<lparr>heap := (heap s)(fresh s := f), fresh := fresh s + 1\<rparr>)"

text \<open>A change of the object at an address, in place.\<close>

definition modify :: "addr \<Rightarrow> (frame \<Rightarrow> failure + frame) \<Rightarrow> state \<Rightarrow> failure + state" where
  "modify a change s =
     (case change (heap s a) of
        Inl e \<Rightarrow> Inl e
      | Inr f \<Rightarrow> Inr (s\<lparr>heap := (heap s)(a := f)\<rparr>))"

text \<open>Lines 39 to 42: the corpus is the demo data, the analysis result is blank.\<close>

definition init :: "tweet list \<Rightarrow> state" where
  "init demo =
     \<lparr>heap = (\<lambda>a. Blank)(0 := Raw demo), fresh = 2, tweets_df = 0, analysis_df = 1\<rparr>"

subsection \<open>The sidebar (lines 65 to 78)\<close>

record controls =
  keyword :: string
  tweet_count :: nat
  sentiment_threshold :: real
  auto_refresh :: bool
  custom_tweet :: string
  add_tweet_clicked :: bool
  run_clicked :: bool
  now :: int

datatype event = Success string | Error string

text \<open>
  \<^verbatim>\<open>if st.button("Add Tweet") and custom_tweet:\<close> the corpus becomes a new frame,
  \<^verbatim>\<open>pd.concat([tweets_df, one row])\<close>. A string is true when it is not empty.
\<close>

definition concat_row :: "frame \<Rightarrow> tweet \<Rightarrow> failure + frame" where
  "concat_row f r =
     (case f of
        Blank \<Rightarrow> Inr (Raw [r])
      | Raw df \<Rightarrow> Inr (Raw (df @ [r]))
      | _ \<Rightarrow> Inl NotModelled)"

definition sidebar :: "controls \<Rightarrow> state \<Rightarrow> failure + event list \<times> state" where
  "sidebar c s =
     (if add_tweet_clicked c \<and> custom_tweet c \<noteq> [] then
        (case concat_row (heap s (tweets_df s)) \<lparr>created_at = now c, text = custom_tweet c\<rparr> of
           Inl e \<Rightarrow> Inl e
         | Inr f \<Rightarrow>
             (let (a, s') = alloc f s
              in Inr ([Success ''Tweet added!''], s'\<lparr>tweets_df := a\<rparr>)))
      else Inr ([], s))"

subsection \<open>The analysis run (lines 83 to 98)\<close>

text \<open>Line 85, on the frame \<^verbatim>\<open>df\<close> names: a new frame.\<close>

definition select_rows :: "string \<Rightarrow> nat \<Rightarrow> frame \<Rightarrow> failure + frame" where
  "select_rows kw n f =
     (case f of
        Blank \<Rightarrow> Inl KeyError
      | Raw df \<Rightarrow> map_sum id Raw (keyword_filter kw n df)
      | _ \<Rightarrow> Inl NotModelled)"

text \<open>Line 95: the columns \<^verbatim>\<open>Polarity\<close> and \<^verbatim>\<open>Sentiment\<close> are added in place.\<close>

definition assign_scores :: "(string \<Rightarrow> real) \<Rightarrow> real \<Rightarrow> frame \<Rightarrow> failure + frame" where
  "assign_scores classify thr f =
     (case f of
        Blank \<Rightarrow> Inl KeyError
      | Raw df \<Rightarrow> Inr (Scored (map (analyze classify thr) df))
      | _ \<Rightarrow> Inl NotModelled)"

text \<open>Line 96: the column \<^verbatim>\<open>Time\<close> is added in place; the values are those of \<^verbatim>\<open>created_at\<close>.\<close>

definition with_time :: "scored \<Rightarrow> timed" where
  "with_time r =
     \<lparr>created_at = created_at r, text = text r, Polarity = Polarity r,
      Sentiment = Sentiment r, Time = created_at r\<rparr>"

definition assign_time :: "frame \<Rightarrow> failure + frame" where
  "assign_time f =
     (case f of
        Scored df \<Rightarrow> Inr (Timed (map with_time df))
      | Timed df \<Rightarrow> Inr (Timed (map (\<lambda>r. r\<lparr>Time := created_at r\<rparr>) df))
      | _ \<Rightarrow> Inl KeyError)"

text \<open>Line 97: \<^verbatim>\<open>df.sort_values('Time')\<close>, a new frame.\<close>

definition sort_by_time :: "frame \<Rightarrow> failure + frame" where
  "sort_by_time f =
     (case f of
        Timed df \<Rightarrow> Inr (Timed (sort_values Time True df))
      | _ \<Rightarrow> Inl KeyError)"

definition run_analysis ::
  "(string \<Rightarrow> real) \<Rightarrow> controls \<Rightarrow> state \<Rightarrow> failure + event list \<times> state" where
  "run_analysis classify c s =
     (if run_clicked c \<or> auto_refresh c then
        (case select_rows (keyword c) (tweet_count c) (heap s (tweets_df s)) of
           Inl e \<Rightarrow> Inl e
         | Inr selected \<Rightarrow>
             (let (df, s1) = alloc selected s
              in if frame_empty (heap s1 df)
                 then Inr ([Error ''No tweets found for this keyword!''], s1)
                 else
                   (case modify df (assign_scores classify (sentiment_threshold c)) s1 of
                      Inl e \<Rightarrow> Inl e
                    | Inr s2 \<Rightarrow>
                        (case modify df assign_time s2 of
                           Inl e \<Rightarrow> Inl e
                         | Inr s3 \<Rightarrow>
                             (case sort_by_time (heap s3 df) of
                                Inl e \<Rightarrow> Inl e
                              | Inr sorted_frame \<Rightarrow>
                                  (let (df', s4) = alloc sorted_frame s3
                                   in Inr ([], s4\<lparr>analysis_df := df'\<rparr>)))))))
      else Inr ([], s))"

subsection \<open>The main content (lines 103 to 153)\<close>

text \<open>
  \<^verbatim>\<open>if not st.session_state.analysis_df.empty:\<close> the summary of the stored result
  is computed and shown; nothing is shown otherwise.
\<close>

definition main_content :: "state \<Rightarrow> failure + summary option" where
  "main_content s =
     (let f = heap s (analysis_df s)
      in if frame_empty f then Inr None
         else case f of
                Timed df \<Rightarrow> Inr (Some (summarise df))
              | Raw df \<Rightarrow> Inl KeyError
              | _ \<Rightarrow> Inl NotModelled)"

subsection \<open>One run of the script\<close>

text \<open>
  An exception ends the run of the script; the session state stays as the
  statements before it left it.
\<close>

definition script ::
  "(string \<Rightarrow> real) \<Rightarrow> controls \<Rightarrow> state \<Rightarrow> (failure + event list \<times> summary option) \<times> state" where
  "script classify c s =
     (case sidebar c s of
        Inl e \<Rightarrow> (Inl e, s)
      | Inr (ev1, s1) \<Rightarrow>
          (case run_analysis classify c s1 of
             Inl e \<Rightarrow> (Inl e, s1)
           | Inr (ev2, s2) \<Rightarrow>
               (case main_content s2 of
                  Inl e \<Rightarrow> (Inl e, s2)
                | Inr shown \<Rightarrow> (Inr (ev1 @ ev2, shown), s2))))"

subsection \<open>Vocabulary of the properties\<close>

text \<open>The position at which a value first occurs in a list (the length, if it never does).\<close>

definition first_index :: "'a list \<Rightarrow> 'a \<Rightarrow> nat" where
  "first_index xs x = length (takeWhile (\<lambda>y. y \<noteq> x) xs)"

text \<open>
  A stub classifier for the examples: the text \<open>p\<close> has polarity 0.2, the text
  \<open>n\<close> has polarity -0.4, every other text has polarity 0.
\<close>

definition ex_classify :: "string \<Rightarrow> real" where
  "ex_classify t = (if t = ''p'' then 2/10 else if t = ''n'' then - (4/10) else 0)"

text \<open>
  The names of the session state refer to objects that exist: a new object never
  takes the place of the corpus or of the stored result.
\<close>

definition wf_state :: "state \<Rightarrow> bool" where
  "wf_state s = (tweets_df s < fresh s \<and> analysis_df s < fresh s)"

text \<open>
  The controls and the corpus of the examples: the run button is clicked, the add
  button is not; three records, the second one the oldest.
\<close>

definition ex_controls :: "string \<Rightarrow> real \<Rightarrow> controls" where
  "ex_controls kw thr =
     \<lparr>keyword = kw, tweet_count = 150, sentiment_threshold = thr, auto_refresh = False,
      custom_tweet = [], add_tweet_clicked = False, run_clicked = True, now = 9\<rparr>"

definition ex_corpus :: "tweet list" where
  "ex_corpus = [\<lparr>created_at = 2, text = ''p''\<rparr>, \<lparr>created_at = 1, text = ''n''\<rparr>,
                \<lparr>created_at = 3, text = ''z''\<rparr>]"

text \<open>The controls when the add button is clicked with a given text in the text area.\<close>

definition ex_add :: "string \<Rightarrow> controls" where
  "ex_add t =
     \<lparr>keyword = ''Tesla'', tweet_count = 150, sentiment_threshold = 1/10, auto_refresh = False,
      custom_tweet = t, add_tweet_clicked = True, run_clicked = False, now = 9\<rparr>"

text \<open>
  An analysis result for the examples: the given texts, numbered from 1 in time,
  scored by the stub classifier at threshold 0.1.
\<close>

definition ex_scored :: "string list \<Rightarrow> timed list" where
  "ex_scored ts =
     map (\<lambda>(i, t). with_time (analyze ex_classify (1/10) \<lparr>created_at = int i, text = t\<rparr>))
       (enumerate 1 ts)"

section \<open>Properties\<close>

text \<open>
  Claim C2. For a threshold that is not negative (the slider gives 0.0 to 0.5), the
  labeler returns Positive exactly when the polarity is above the threshold, Negative
  exactly when it is below minus the threshold, and Neutral exactly in between; a
  polarity equal to the threshold or to minus the threshold is Neutral, also at
  threshold 0; and the three examples of the specification evaluate as stated.
\<close>

theorem sentiment_of_rule:
  assumes "0 \<le> thr"
  shows "(sentiment_of pol thr = Positive) = (pol > thr)
       \<and> (sentiment_of pol thr = Negative) = (pol < - thr)
       \<and> (sentiment_of pol thr = Neutral) = (- thr \<le> pol \<and> pol \<le> thr)
       \<and> sentiment_of thr thr = Neutral
       \<and> sentiment_of (- thr) thr = Neutral"
  using assms by (auto simp: sentiment_of_def)

theorem sentiment_of_rule_witness:
  "(0::real) \<le> 3/10
   \<and> sentiment_of (3/10) (3/10) = Neutral
   \<and> sentiment_of (31/100) (3/10) = Positive
   \<and> sentiment_of (- (3/10)) (3/10) = Neutral
   \<and> sentiment_of (- (4/10)) (3/10) = Negative
   \<and> sentiment_of 0 0 = Neutral"
proof -
  have h: "(0::real) \<le> 3/10" by simp
  show ?thesis
    using h sentiment_of_rule [OF h, of "31/100"] sentiment_of_rule [OF h, of "- (4/10)"]
      sentiment_of_rule [of 0 0]
    by simp
qed

subsection \<open>The keyword filter on keywords without special characters\<close>

lemma parse_atoms_literal:
  "set kw \<inter> set special_chars = {} \<Longrightarrow> parse_atoms kw = Some (map Literal kw)"
  by (induction kw) (auto simp: special_chars_def)

lemma re_compile_literal:
  assumes "set kw \<inter> set special_chars = {}"
  shows "re_compile kw = Inr (map Literal kw)"
proof -
  have "kw \<noteq> [] \<Longrightarrow> hd kw \<notin> set repeat_chars"
    using assms by (cases kw) (auto simp: special_chars_def repeat_chars_def)
  then show ?thesis
    using parse_atoms_literal [OF assms] by (auto simp: re_compile_def)
qed

lemma match_here_literal:
  "match_here (map Literal kw) s = prefix (map lower kw) (map lower s)"
  by (induction kw arbitrary: s) (case_tac s; auto)+

lemma re_search_literal:
  "re_search (map Literal kw) s = sublist (map lower kw) (map lower s)"
proof (induction s)
  case Nil
  then show ?case by (cases kw) auto
next
  case (Cons c s)
  then show ?case
    by (simp add: match_here_literal sublist_Cons_right del: match_here.simps)
qed

lemma keyword_filter_literal:
  assumes "set kw \<inter> set special_chars = {}"
  shows "keyword_filter kw n df =
    Inr (take n (filter (\<lambda>r. sublist (map lower kw) (map lower (text r))) df))"
  by (simp add: keyword_filter_def re_compile_literal [OF assms] re_search_literal)

subsection \<open>Sorting\<close>

lemma mset_sort_values: "mset (sort_values f asc xs) = mset xs"
  by (simp add: sort_values_def)

lemma set_sort_values: "set (sort_values f asc xs) = set xs"
  by (simp add: sort_values_def)

lemma length_sort_values: "length (sort_values f asc xs) = length xs"
  by (simp add: sort_values_def)

lemma sorted_sort_values_asc: "sorted (map f (sort_values f True xs))"
  by (simp add: sort_values_def)

lemma sorted_sort_values_desc: "sorted (rev (map f (sort_values f False xs)))"
  by (simp add: sort_values_def rev_map)

text \<open>A stable sort orders by key and keeps the given order among equal keys.\<close>

lemma sorted_wrt_insort_key:
  assumes "sorted_wrt (\<lambda>a b. f a < f b \<or> (f a = f b \<and> P a b)) ys"
    and "\<forall>y \<in> set ys. P x y"
  shows "sorted_wrt (\<lambda>a b. f a < f b \<or> (f a = f b \<and> P a b)) (insort_key f x ys)"
  using assms
proof (induction ys)
  case Nil
  then show ?case by simp
next
  case (Cons y ys)
  show ?case
  proof (cases "f x \<le> f y")
    case True
    have "f x < f z \<or> (f x = f z \<and> P x z)" if "z \<in> set (y # ys)" for z
    proof -
      have "f y \<le> f z" using that Cons.prems(1) by auto
      then have "f x \<le> f z" using True by simp
      moreover have "P x z" using that Cons.prems(2) by auto
      ultimately show ?thesis by auto
    qed
    then show ?thesis using True Cons.prems(1) by simp
  next
    case False
    then have "sorted_wrt (\<lambda>a b. f a < f b \<or> (f a = f b \<and> P a b)) (insort_key f x ys)"
      using Cons by simp
    then show ?thesis using False Cons.prems(1) by (auto simp: set_insort_key)
  qed
qed

lemma sorted_wrt_sort_key:
  "sorted_wrt P xs \<Longrightarrow>
   sorted_wrt (\<lambda>a b. f a < f b \<or> (f a = f b \<and> P a b)) (sort_key f xs)"
proof (induction xs)
  case Nil
  then show ?case by simp
next
  case (Cons x xs)
  then show ?case
    by (simp add: sorted_wrt_insort_key)
qed

lemma sorted_wrt_sort_values_desc:
  assumes "sorted_wrt P xs"
  shows "sorted_wrt (\<lambda>a b. f a > f b \<or> (f a = f b \<and> P a b)) (sort_values f False xs)"
proof -
  have "sorted_wrt (\<lambda>a b. P b a) (rev xs)"
    using assms by (simp add: sorted_wrt_rev)
  then have "sorted_wrt (\<lambda>a b. f a < f b \<or> (f a = f b \<and> P b a)) (sort_key f (rev xs))"
    by (rule sorted_wrt_sort_key)
  then have "sorted_wrt (\<lambda>a b. f b < f a \<or> (f b = f a \<and> P a b)) (rev (sort_key f (rev xs)))"
    by (simp add: sorted_wrt_rev)
  then show ?thesis
    by (simp add: sort_values_def eq_commute [of "f _" "f _"] cong: conj_cong)
qed

subsection \<open>Counting\<close>

lemma first_index_less: "x \<in> set xs \<Longrightarrow> first_index xs x < length xs"
  by (induction xs) (auto simp: first_index_def)

lemma first_index_append_old: "x \<in> set xs \<Longrightarrow> first_index (xs @ ys) x = first_index xs x"
  by (induction xs) (auto simp: first_index_def)

lemma first_index_append_new: "x \<notin> set xs \<Longrightarrow> first_index (xs @ [x]) x = length xs"
  by (induction xs) (auto simp: first_index_def)

lemma keys_incr:
  "map fst (incr x d) = (if x \<in> fst ` set d then map fst d else map fst d @ [x])"
  by (induction d) (auto split: if_splits)

lemma map_of_incr:
  "map_of (incr x d) = (map_of d)(x \<mapsto> (case map_of d x of None \<Rightarrow> 1 | Some n \<Rightarrow> n + 1))"
  by (induction d) (auto split: if_splits)

lemma Counter_snoc: "Counter (xs @ [x]) = incr x (Counter xs)"
  by (simp add: Counter_def)

lemma Counter_Nil: "Counter [] = []"
  by (simp add: Counter_def)

lemma keys_Counter_set: "fst ` set (Counter xs) = set xs"
proof (induction xs rule: rev_induct)
  case Nil
  then show ?case by (simp add: Counter_Nil)
next
  case (snoc x xs)
  have "set (map fst (Counter (xs @ [x]))) = set (xs @ [x])"
    unfolding Counter_snoc keys_incr using snoc by auto
  then show ?case by simp
qed

lemma keys_Counter_snoc:
  "map fst (Counter (xs @ [x])) =
     (if x \<in> set xs then map fst (Counter xs) else map fst (Counter xs) @ [x])"
  by (simp add: Counter_snoc keys_incr keys_Counter_set)

lemma distinct_keys_Counter: "distinct (map fst (Counter xs))"
proof (induction xs rule: rev_induct)
  case Nil
  then show ?case by (simp add: Counter_Nil)
next
  case (snoc x xs)
  then show ?case
    using keys_Counter_set [of xs] by (simp add: keys_Counter_snoc)
qed

lemma map_of_Counter:
  "map_of (Counter xs) k = (if k \<in> set xs then Some (count_list xs k) else None)"
proof (induction xs arbitrary: k rule: rev_induct)
  case Nil
  then show ?case by (simp add: Counter_Nil)
next
  case (snoc x xs)
  show ?case
    by (simp add: Counter_snoc map_of_incr snoc)
qed

lemma Counter_counts:
  assumes "(k, n) \<in> set (Counter xs)"
  shows "n = count_list xs k"
proof -
  have "map_of (Counter xs) k = Some n"
    using assms distinct_keys_Counter [of xs] by simp
  then show ?thesis
    by (simp add: map_of_Counter split: if_splits)
qed

lemma keys_Counter_order:
  "sorted_wrt (\<lambda>a b. first_index xs a < first_index xs b) (map fst (Counter xs))"
proof (induction xs rule: rev_induct)
  case Nil
  then show ?case by (simp add: Counter_Nil)
next
  case (snoc x xs)
  have keys: "set (map fst (Counter xs)) = set xs"
    using keys_Counter_set [of xs] by simp
  have old: "sorted_wrt (\<lambda>a b. first_index (xs @ [x]) a < first_index (xs @ [x]) b)
               (map fst (Counter xs))"
  proof (rule sorted_wrt_mono_rel [OF _ snoc])
    fix a b
    assume "a \<in> set (map fst (Counter xs))" "b \<in> set (map fst (Counter xs))"
      and "first_index xs a < first_index xs b"
    then show "first_index (xs @ [x]) a < first_index (xs @ [x]) b"
      unfolding keys by (simp add: first_index_append_old)
  qed
  show ?case
  proof (cases "x \<in> set xs")
    case True
    then show ?thesis using old by (simp add: keys_Counter_snoc)
  next
    case False
    have "first_index (xs @ [x]) a < first_index (xs @ [x]) x"
      if "a \<in> set (map fst (Counter xs))" for a
    proof -
      have "a \<in> set xs" using that unfolding keys .
      then show ?thesis
        using False by (simp add: first_index_append_old first_index_append_new first_index_less)
    qed
    then show ?thesis
      using False old by (simp add: keys_Counter_snoc sorted_wrt_append)
  qed
qed

lemma Counter_order:
  "sorted_wrt (\<lambda>a b. first_index xs (fst a) < first_index xs (fst b)) (Counter xs)"
  using keys_Counter_order [of xs] by (simp add: sorted_wrt_map)

subsection \<open>Tokens\<close>

lemma split_acc_tokens:
  "\<forall>c \<in> set w. \<not> isspace c \<Longrightarrow>
   \<forall>u \<in> set (split_acc w t). u \<noteq> [] \<and> (\<forall>c \<in> set u. \<not> isspace c)"
proof (induction t arbitrary: w)
  case Nil
  then show ?case by simp
next
  case (Cons a t)
  show ?case
  proof (cases "isspace a")
    case True
    have "\<forall>u \<in> set (split_acc [] t). u \<noteq> [] \<and> (\<forall>c \<in> set u. \<not> isspace c)"
      by (rule Cons.IH) simp
    then show ?thesis using True Cons.prems by simp
  next
    case False
    have "\<forall>u \<in> set (split_acc (w @ [a]) t). u \<noteq> [] \<and> (\<forall>c \<in> set u. \<not> isspace c)"
      by (rule Cons.IH) (use False Cons.prems in simp)
    then show ?thesis using False by simp
  qed
qed

lemma split_acc_separator:
  "isspace c \<Longrightarrow> split_acc w (t1 @ c # t2) = split_acc w t1 @ split_acc [] t2"
  by (induction t1 arbitrary: w) auto

lemma split_acc_no_space:
  "\<forall>c \<in> set t. \<not> isspace c \<Longrightarrow> split_acc w t = (if w @ t = [] then [] else [w @ t])"
  by (induction t arbitrary: w) auto

lemma split_tokens: "u \<in> set (split t) \<Longrightarrow> u \<noteq> [] \<and> (\<forall>c \<in> set u. \<not> isspace c)"
  using split_acc_tokens [of "[]" t] by (simp add: split_def)

lemma split_separator: "isspace c \<Longrightarrow> split (t1 @ c # t2) = split t1 @ split t2"
  by (simp add: split_def split_acc_separator)

lemma split_no_space: "t \<noteq> [] \<Longrightarrow> \<forall>c \<in> set t. \<not> isspace c \<Longrightarrow> split t = [t]"
  by (simp add: split_def split_acc_no_space)

lemma words_tokens:
  "w \<in> set (words df) \<Longrightarrow> w \<noteq> [] \<and> (\<forall>c \<in> set w. \<not> isspace c) \<and> \<not> prefix ''http'' w"
  using split_tokens by (auto simp: words_def startswith_def)

lemma concat_map_if: "concat (map (\<lambda>w. if P w then [w] else []) xs) = filter P xs"
  by (induction xs) auto

lemma words_eq:
  "words df = filter (\<lambda>w. \<not> prefix ''http'' w) (concat (map (\<lambda>r. split (text r)) df))"
  by (simp add: words_def startswith_def filter_concat comp_def concat_map_if)

lemma most_common_Counter:
  "\<exists>L. most_common n (Counter ws) = take n L
     \<and> distinct (map fst L) \<and> set (map fst L) = set ws
     \<and> (\<forall>(w, k) \<in> set L. k = count_list ws w)
     \<and> sorted_wrt (\<lambda>a b. snd a > snd b
          \<or> (snd a = snd b \<and> first_index ws (fst a) < first_index ws (fst b))) L"
proof -
  let ?L = "sort_values snd False (Counter ws)"
  have "mset (map fst ?L) = mset (map fst (Counter ws))"
    by (simp add: mset_sort_values)
  then have d: "distinct (map fst ?L)"
    using distinct_keys_Counter [of ws] by (metis mset_eq_imp_distinct_iff)
  have s: "set (map fst ?L) = set ws"
    using keys_Counter_set [of ws] by (simp add: set_sort_values)
  have c: "\<forall>(w, k) \<in> set ?L. k = count_list ws w"
    using Counter_counts by (auto simp: set_sort_values)
  have o: "sorted_wrt (\<lambda>a b. snd a > snd b
          \<or> (snd a = snd b \<and> first_index ws (fst a) < first_index ws (fst b))) ?L"
    by (rule sorted_wrt_sort_values_desc [OF Counter_order])
  show ?thesis
    unfolding most_common_def using d s c o by blast
qed

subsection \<open>Label counts\<close>

lemma map_of_sort_values:
  assumes "distinct (map fst d)"
  shows "map_of (sort_values f asc d) = map_of d"
proof -
  have "mset (map fst (sort_values f asc d)) = mset (map fst d)"
    by (simp add: mset_sort_values)
  then have "distinct (map fst (sort_values f asc d))"
    using assms by (metis mset_eq_imp_distinct_iff)
  then show ?thesis
    using assms map_of_inject_set [of "sort_values f asc d" d] by (simp add: set_sort_values)
qed

lemma get_value_counts: "get (value_counts xs) l 0 = count_list xs l"
proof -
  have "map_of (value_counts xs) = map_of (Counter xs)"
    unfolding value_counts_def by (rule map_of_sort_values [OF distinct_keys_Counter])
  then show ?thesis
    by (simp add: get_def map_of_Counter count_list_0_iff)
qed

lemma count_list_map_filter: "count_list (map f xs) l = length (filter (\<lambda>r. f r = l) xs)"
  by (induction xs) auto

lemma label_counts_total:
  "length (filter (\<lambda>r. Sentiment r = Positive) df)
   + length (filter (\<lambda>r. Sentiment r = Negative) df)
   + length (filter (\<lambda>r. Sentiment r = Neutral) df) = length df"
proof (induction df)
  case Nil
  then show ?case by simp
next
  case (Cons r df)
  then show ?case by (cases "Sentiment r") simp_all
qed

subsection \<open>The analysis run\<close>

lemma wf_state_init: "wf_state (init demo)"
  by (simp add: wf_state_def init_def)

lemma wf_state_sidebar:
  "wf_state s \<Longrightarrow> sidebar c s = Inr (ev, s') \<Longrightarrow> wf_state s'"
  by (auto simp: wf_state_def sidebar_def alloc_def split: if_splits sum.splits)

lemma run_analysis_not_run:
  "\<not> (run_clicked c \<or> auto_refresh c) \<Longrightarrow> run_analysis classify c s = Inr ([], s)"
  by (simp add: run_analysis_def)

lemma run_analysis_no_match:
  assumes "run_clicked c \<or> auto_refresh c"
    and "heap s (tweets_df s) = Raw rows"
    and "keyword_filter (keyword c) (tweet_count c) rows = Inr []"
  shows "run_analysis classify c s
         = Inr ([Error ''No tweets found for this keyword!''],
                s\<lparr>heap := (heap s)(fresh s := Raw []), fresh := fresh s + 1\<rparr>)"
  using assms by (simp add: run_analysis_def select_rows_def alloc_def)

lemma run_analysis_match:
  assumes "run_clicked c \<or> auto_refresh c"
    and "heap s (tweets_df s) = Raw rows"
    and "keyword_filter (keyword c) (tweet_count c) rows = Inr sel"
    and "sel \<noteq> []"
  shows "run_analysis classify c s
         = Inr ([],
                s\<lparr>heap := (heap s)
                    (fresh s := Timed (map with_time (map (analyze classify (sentiment_threshold c)) sel)),
                     fresh s + 1 := Timed (sort_values Time True
                        (map with_time (map (analyze classify (sentiment_threshold c)) sel)))),
                  fresh := fresh s + 2, analysis_df := fresh s + 1\<rparr>)"
  using assms
  by (simp add: run_analysis_def select_rows_def alloc_def modify_def assign_scores_def
        assign_time_def sort_by_time_def)

lemma run_analysis_frame:
  assumes "run_analysis classify c s = Inr (ev, s')"
  shows "tweets_df s' = tweets_df s \<and> fresh s \<le> fresh s'
         \<and> (\<forall>a. a < fresh s \<longrightarrow> heap s' a = heap s a)"
  using assms
  by (auto simp: run_analysis_def alloc_def modify_def
        split: if_splits sum.splits prod.splits)

lemma run_analysis_error_frame:
  assumes "run_analysis classify c s = Inr (ev, s')" and "ev \<noteq> []"
  shows "analysis_df s' = analysis_df s"
  using assms
  by (auto simp: run_analysis_def alloc_def modify_def
        split: if_splits sum.splits prod.splits)

lemma wf_state_run_analysis:
  "wf_state s \<Longrightarrow> run_analysis classify c s = Inr (ev, s') \<Longrightarrow> wf_state s'"
  by (auto simp: wf_state_def run_analysis_def alloc_def modify_def
        split: if_splits sum.splits prod.splits)

lemma created_at_with_time: "created_at (with_time r) = created_at r"
  by (simp add: with_time_def)

lemma Time_with_time: "Time (with_time r) = created_at r"
  by (simp add: with_time_def)

subsection \<open>Unfolding the pipeline on concrete inputs\<close>

lemmas run_defs = run_analysis_def select_rows_def keyword_filter_def re_compile_def
  repeat_chars_def special_chars_def alloc_def modify_def assign_scores_def analyze_def
  sentiment_of_def assign_time_def with_time_def sort_by_time_def sort_values_def init_def
  lower_def

lemmas summary_defs = summarise_def mean_def value_counts_def Counter_def get_def
  trending_words_def most_common_def words_def split_def isspace_def startswith_def
  top_positive_def top_negative_def shown_columns_def sort_values_def

section \<open>The claims\<close>

text \<open>
  Claim C1 (the keyword filter selects exactly the records whose text contains the
  keyword as a case-insensitive substring). The code fails it on keywords with a
  special character of the pattern syntax: for the keyword \<open>.\<close> the filter selects the
  text \<open>abc\<close>, which does not contain a dot. (For keywords without special characters
  the filter is the case-insensitive substring selection, in corpus order, cut to the
  first \<open>n\<close>: lemma \<open>keyword_filter_literal\<close>.)
\<close>

theorem keyword_filter_dot_is_a_wildcard:
  "keyword_filter ''.'' 10 [\<lparr>created_at = 0, text = ''abc''\<rparr>]
     = Inr [\<lparr>created_at = 0, text = ''abc''\<rparr>]
   \<and> \<not> sublist (map lower ''.'') (map lower ''abc'')"
  by (simp add: keyword_filter_def re_compile_def repeat_chars_def lower_def sublist_Cons_right)

text \<open>
  Claim C7 (no matching record: the filter returns an empty sequence, never an error,
  and the run reports the no-match condition). The code fails it on the same keywords:
  no text of the corpus contains a dot or a star, yet for the keyword \<open>.\<close> the filter
  returns the record and the run stores an analysis result without any error message,
  and for the keyword \<open>*\<close> the filter raises.
\<close>

theorem run_analysis_special_keyword:
  "\<not> sublist (map lower ''.'') (map lower ''abc'')
   \<and> \<not> sublist (map lower ''*'') (map lower ''abc'')
   \<and> keyword_filter ''.'' 10 [\<lparr>created_at = 0, text = ''abc''\<rparr>] \<noteq> Inr []
   \<and> keyword_filter ''*'' 10 [\<lparr>created_at = 0, text = ''abc''\<rparr>] = Inl ReError
   \<and> map_sum id (\<lambda>(ev, s'). (ev, heap s' (analysis_df s')))
        (run_analysis (\<lambda>t. 0)
           \<lparr>keyword = ''.'', tweet_count = 10, sentiment_threshold = 1/10, auto_refresh = False,
            custom_tweet = [], add_tweet_clicked = False, run_clicked = True, now = 5\<rparr>
           (init [\<lparr>created_at = 0, text = ''abc''\<rparr>]))
      = Inr ([], Timed [\<lparr>created_at = 0, text = ''abc'', Polarity = 0, Sentiment = Neutral, Time = 0\<rparr>])"
  by (simp add: run_defs sublist_Cons_right)

text \<open>
  Claim C4. The words counted are the tokens of the texts, in record order, without
  those that begin with \<open>http\<close>. A text is cut at whitespace and nowhere else: around
  a whitespace character the tokens are those of the two sides, and a text without
  whitespace is one token, unchanged (so case and punctuation are kept). The trending
  words are the first 10 entries of the list \<open>L\<close> of all distinct words with their
  numbers of occurrences, ordered by descending count and, among equal counts, by
  first appearance.
\<close>

theorem trending_words_top10:
  "words df = filter (\<lambda>w. \<not> prefix ''http'' w) (concat (map (\<lambda>r. split (text r)) df))
   \<and> (\<forall>t1 c t2. isspace c \<longrightarrow> split (t1 @ c # t2) = split t1 @ split t2)
   \<and> (\<forall>t. t \<noteq> [] \<and> (\<forall>c \<in> set t. \<not> isspace c) \<longrightarrow> split t = [t])
   \<and> split [] = []
   \<and> (\<exists>L. trending_words df = take 10 L
        \<and> distinct (map fst L) \<and> set (map fst L) = set (words df)
        \<and> (\<forall>(w, k) \<in> set L. k = count_list (words df) w)
        \<and> sorted_wrt (\<lambda>a b. snd a > snd b
             \<or> (snd a = snd b
                \<and> first_index (words df) (fst a) < first_index (words df) (fst b))) L)"
  using most_common_Counter [of 10 "words df"]
  by (simp add: words_eq [symmetric] split_separator split_no_space trending_words_def)
     (simp add: split_def)

theorem trending_words_top10_witness:
  "isspace CHR '' ''
   \<and> split ''a b'' = [''a'', ''b'']
   \<and> split ''Tesla!'' = [''Tesla!'']
   \<and> words [\<lparr>created_at = 1, text = ''a b'', Polarity = 0, Sentiment = Neutral, Time = 1\<rparr>,
            \<lparr>created_at = 2, text = ''b a'', Polarity = 0, Sentiment = Neutral, Time = 2\<rparr>]
       = [''a'', ''b'', ''b'', ''a'']
   \<and> trending_words
        [\<lparr>created_at = 1, text = ''a b'', Polarity = 0, Sentiment = Neutral, Time = 1\<rparr>,
         \<lparr>created_at = 2, text = ''b a'', Polarity = 0, Sentiment = Neutral, Time = 2\<rparr>]
       = [(''a'', 2), (''b'', 2)]"
proof -
  have sp: "isspace CHR '' ''" by (simp add: isspace_def)
  have a: "split ''a b'' = split ''a'' @ split ''b''"
    using trending_words_top10 [of "[]"] sp by (metis append_Cons append_Nil)
  have b: "split ''a'' = [''a'']" "split ''b'' = [''b'']" "split ''Tesla!'' = [''Tesla!'']"
    using trending_words_top10 [of "[]"] by (simp_all add: isspace_def)
  show ?thesis
    using sp a b by (simp add: summary_defs)
qed

text \<open>
  Claim C5. For a stored analysis result that is not empty, the main content shows the
  summary whose total is the number of records, whose average polarity is the sum of
  the polarities divided by that number, and whose count for each label is the number
  of records with that label; the three counts add up to the total. Polarities are
  real numbers here: the rounding of the floating-point sum and quotient is abstracted.
\<close>

theorem summarise_totals:
  assumes "heap s (analysis_df s) = Timed df" and "df \<noteq> []"
  shows "main_content s = Inr (Some (summarise df))
     \<and> total (summarise df) = length df
     \<and> avg_pol (summarise df) = sum_list (map Polarity df) / real (length df)
     \<and> get (counts (summarise df)) l 0 = length (filter (\<lambda>r. Sentiment r = l) df)
     \<and> get (counts (summarise df)) Positive 0 + get (counts (summarise df)) Negative 0
         + get (counts (summarise df)) Neutral 0 = total (summarise df)"
proof -
  have m: "main_content s = Inr (Some (summarise df))"
    using assms by (simp add: main_content_def)
  have c: "get (counts (summarise df)) k 0 = length (filter (\<lambda>r. Sentiment r = k) df)" for k
    by (simp add: summarise_def get_value_counts count_list_map_filter)
  show ?thesis
    using m c label_counts_total [of df] by (simp add: summarise_def mean_def)
qed

text \<open>
  The example of the specification: polarities 0.2, -0.4 and 0.0 at threshold 0.1.
\<close>

theorem summarise_totals_witness:
  "(let df = map (\<lambda>r. with_time (analyze ex_classify (1/10) r))
               [\<lparr>created_at = 1, text = ''p''\<rparr>, \<lparr>created_at = 2, text = ''n''\<rparr>,
                \<lparr>created_at = 3, text = ''z''\<rparr>];
        sm = summarise df
    in df \<noteq> [] \<and> map Polarity df = [2/10, - (4/10), 0]
       \<and> total sm = 3
       \<and> get (counts sm) Positive 0 = 1 \<and> get (counts sm) Negative 0 = 1
       \<and> get (counts sm) Neutral 0 = 1
       \<and> avg_pol sm = - (1/15) \<and> \<bar>avg_pol sm - (- 0.0667)\<bar> < 0.0001)"
proof -
  define df where "df = map (\<lambda>r. with_time (analyze ex_classify (1/10) r))
               [\<lparr>created_at = 1, text = ''p''\<rparr>, \<lparr>created_at = 2, text = ''n''\<rparr>,
                \<lparr>created_at = 3, text = ''z''\<rparr>]"
  define s where "s = \<lparr>heap = (\<lambda>a. Blank)(1 := Timed df), fresh = 2, tweets_df = 0, analysis_df = 1\<rparr>"
  have df: "df = [\<lparr>created_at = 1, text = ''p'', Polarity = 2/10, Sentiment = Positive, Time = 1\<rparr>,
                  \<lparr>created_at = 2, text = ''n'', Polarity = - (4/10), Sentiment = Negative, Time = 2\<rparr>,
                  \<lparr>created_at = 3, text = ''z'', Polarity = 0, Sentiment = Neutral, Time = 3\<rparr>]"
    by (simp add: df_def with_time_def analyze_def ex_classify_def sentiment_of_def)
  have h1: "heap s (analysis_df s) = Timed df" by (simp add: s_def)
  have h2: "df \<noteq> []" by (simp add: df)
  note t = summarise_totals [OF h1 h2]
  have "total (summarise df) = 3" using t [of Positive] by (simp add: df)
  moreover have "get (counts (summarise df)) Positive 0 = 1" using t [of Positive] by (simp add: df)
  moreover have "get (counts (summarise df)) Negative 0 = 1" using t [of Negative] by (simp add: df)
  moreover have "get (counts (summarise df)) Neutral 0 = 1" using t [of Neutral] by (simp add: df)
  moreover have "avg_pol (summarise df) = - (1/15)" using t [of Positive] by (simp add: df)
  ultimately show ?thesis
    using h2 unfolding Let_def df_def [symmetric] by (simp add: df)
qed

text \<open>
  Claim C8. A run of the analysis leaves the corpus as it is: the session state names
  the same corpus object and that object holds the same records in the same order
  (the scores are written into the new frame that the selection made). The state after
  the run is again well formed, so the same holds for every later run, whatever its
  threshold, keyword or classifier: after two runs the corpus is still the one before
  the first.
\<close>

theorem run_analysis_keeps_corpus:
  assumes "wf_state s" and "run_analysis classify c s = Inr (ev, s')"
  shows "tweets_df s' = tweets_df s \<and> heap s' (tweets_df s') = heap s (tweets_df s)
         \<and> wf_state s'
         \<and> (\<forall>classify2 c2 ev2 s2. run_analysis classify2 c2 s' = Inr (ev2, s2)
               \<longrightarrow> heap s2 (tweets_df s2) = heap s (tweets_df s))"
proof -
  have 1: "tweets_df s' = tweets_df s \<and> heap s' (tweets_df s') = heap s (tweets_df s)"
    using assms run_analysis_frame [OF assms(2)] by (simp add: wf_state_def)
  have 2: "wf_state s'"
    using assms by (rule wf_state_run_analysis)
  have 3: "heap s2 (tweets_df s2) = heap s (tweets_df s)"
    if "run_analysis classify2 c2 s' = Inr (ev2, s2)" for classify2 c2 ev2 s2
  proof -
    have "tweets_df s2 = tweets_df s'" "heap s2 (tweets_df s') = heap s' (tweets_df s')"
      using run_analysis_frame [OF that] 2 by (simp_all add: wf_state_def)
    then show ?thesis using 1 by auto
  qed
  show ?thesis using 1 2 3 by blast
qed

theorem run_analysis_keeps_corpus_witness:
  "wf_state (init ex_corpus)
   \<and> (\<exists>s1 s2. run_analysis ex_classify (ex_controls [] (1/10)) (init ex_corpus) = Inr ([], s1)
        \<and> run_analysis ex_classify (ex_controls [] (3/10)) s1 = Inr ([], s2)
        \<and> heap s1 (analysis_df s1) \<noteq> heap s2 (analysis_df s2)
        \<and> heap s1 (tweets_df s1) = Raw ex_corpus
        \<and> heap s2 (tweets_df s2) = Raw ex_corpus)"
proof -
  have wf: "wf_state (init ex_corpus)" by (rule wf_state_init)
  obtain s1 where r1: "run_analysis ex_classify (ex_controls [] (1/10)) (init ex_corpus) = Inr ([], s1)"
    by (simp add: run_defs ex_controls_def ex_corpus_def)
  note k = run_analysis_keeps_corpus [OF wf r1]
  have c1: "heap s1 (tweets_df s1) = Raw ex_corpus"
    using k by (auto simp add: init_def)
  have f: "keyword_filter [] 150 ex_corpus = Inr ex_corpus"
    by (simp add: keyword_filter_def re_compile_def ex_corpus_def)
  obtain s2 where r2: "run_analysis ex_classify (ex_controls [] (3/10)) s1 = Inr ([], s2)"
    using run_analysis_match [of "ex_controls [] (3/10)" s1 ex_corpus ex_corpus ex_classify] c1 f
    by (simp add: ex_controls_def ex_corpus_def)
  have c2: "heap s2 (tweets_df s2) = Raw ex_corpus"
    using k r2 by (auto simp add: init_def)
  have a1: "heap s1 (analysis_df s1) = Timed
     [\<lparr>created_at = 1, text = ''n'', Polarity = - (4/10), Sentiment = Negative, Time = 1\<rparr>,
      \<lparr>created_at = 2, text = ''p'', Polarity = 2/10, Sentiment = Positive, Time = 2\<rparr>,
      \<lparr>created_at = 3, text = ''z'', Polarity = 0, Sentiment = Neutral, Time = 3\<rparr>]"
    using r1 by (auto simp add: run_defs ex_controls_def ex_corpus_def ex_classify_def)
  have a2: "heap s2 (analysis_df s2) = Timed
     [\<lparr>created_at = 1, text = ''n'', Polarity = - (4/10), Sentiment = Negative, Time = 1\<rparr>,
      \<lparr>created_at = 2, text = ''p'', Polarity = 2/10, Sentiment = Neutral, Time = 2\<rparr>,
      \<lparr>created_at = 3, text = ''z'', Polarity = 0, Sentiment = Neutral, Time = 3\<rparr>]"
    using r2 run_analysis_match [of "ex_controls [] (3/10)" s1 ex_corpus ex_corpus ex_classify] c1 f
    by (auto simp add: ex_controls_def ex_corpus_def ex_classify_def analyze_def sentiment_of_def
          with_time_def sort_values_def)
  show ?thesis using wf r1 r2 c1 c2 a1 a2 by auto
qed

text \<open>
  Claim C9. A run on a corpus from which the filter selects at least one record
  returns without an error message and stores a result that consists of the selected
  records, scored, each with its \<open>Time\<close> equal to its \<open>created_at\<close>, in ascending order
  of \<open>created_at\<close>.
\<close>

theorem run_analysis_sorted_by_time:
  assumes "run_clicked c \<or> auto_refresh c"
    and "heap s (tweets_df s) = Raw rows"
    and "keyword_filter (keyword c) (tweet_count c) rows = Inr sel"
    and "sel \<noteq> []"
  shows "\<exists>s' df. run_analysis classify c s = Inr ([], s')
           \<and> heap s' (analysis_df s') = Timed df
           \<and> mset df = mset (map (\<lambda>r. with_time (analyze classify (sentiment_threshold c) r)) sel)
           \<and> map Time df = map created_at df
           \<and> sorted (map created_at df)"
proof -
  let ?df0 = "map with_time (map (analyze classify (sentiment_threshold c)) sel)"
  let ?df = "sort_values Time True ?df0"
  have t: "\<forall>r \<in> set ?df. Time r = created_at r"
    by (auto simp: set_sort_values with_time_def)
  then have e: "map Time ?df = map created_at ?df"
    by simp
  have "sorted (map created_at ?df)"
    by (subst e [symmetric]) (rule sorted_sort_values_asc)
  moreover have "mset ?df = mset (map (\<lambda>r. with_time (analyze classify (sentiment_threshold c) r)) sel)"
    by (simp add: mset_sort_values comp_def)
  ultimately show ?thesis
    using e by (simp add: run_analysis_match [OF assms])
qed

theorem run_analysis_sorted_by_time_witness:
  "\<exists>s'. run_analysis ex_classify (ex_controls [] (1/10)) (init ex_corpus) = Inr ([], s')
     \<and> map created_at ex_corpus = [2, 1, 3]
     \<and> heap s' (analysis_df s') = Timed
          [\<lparr>created_at = 1, text = ''n'', Polarity = - (4/10), Sentiment = Negative, Time = 1\<rparr>,
           \<lparr>created_at = 2, text = ''p'', Polarity = 2/10, Sentiment = Positive, Time = 2\<rparr>,
           \<lparr>created_at = 3, text = ''z'', Polarity = 0, Sentiment = Neutral, Time = 3\<rparr>]"
proof -
  have h: "heap (init ex_corpus) (tweets_df (init ex_corpus)) = Raw ex_corpus"
    by (simp add: init_def)
  have f: "keyword_filter (keyword (ex_controls [] (1/10))) (tweet_count (ex_controls [] (1/10)))
             ex_corpus = Inr ex_corpus"
    by (simp add: keyword_filter_def re_compile_def ex_corpus_def ex_controls_def)
  have r: "run_clicked (ex_controls [] (1/10)) \<or> auto_refresh (ex_controls [] (1/10))"
    by (simp add: ex_controls_def)
  have n: "ex_corpus \<noteq> []"
    by (simp add: ex_corpus_def)
  obtain s' df where
    "run_analysis ex_classify (ex_controls [] (1/10)) (init ex_corpus) = Inr ([], s')"
    "heap s' (analysis_df s') = Timed df"
    using run_analysis_sorted_by_time [OF r h f n, of ex_classify] by blast
  then show ?thesis
    by (auto simp add: run_defs ex_controls_def ex_corpus_def ex_classify_def)
qed

text \<open>
  Claim C10. A run on a corpus from which the filter selects no record reports
  \<open>No tweets found for this keyword!\<close> and leaves the stored result as it was: the
  session state names the same result object, the object is unchanged, and the main
  content presents what it presented before the run.
\<close>

theorem run_analysis_no_match_keeps_result:
  assumes "run_clicked c \<or> auto_refresh c"
    and "heap s (tweets_df s) = Raw rows"
    and "keyword_filter (keyword c) (tweet_count c) rows = Inr []"
    and "wf_state s"
  shows "\<exists>s'. run_analysis classify c s = Inr ([Error ''No tweets found for this keyword!''], s')
           \<and> analysis_df s' = analysis_df s
           \<and> heap s' (analysis_df s') = heap s (analysis_df s)
           \<and> main_content s' = main_content s"
  using assms(4)
  by (simp add: run_analysis_no_match [OF assms(1,2,3)] wf_state_def main_content_def)

theorem run_analysis_no_match_keeps_result_witness:
  "\<exists>s1 s2. run_analysis ex_classify (ex_controls ''p'' (1/10)) (init ex_corpus) = Inr ([], s1)
     \<and> run_analysis ex_classify (ex_controls ''q'' (1/10)) s1
         = Inr ([Error ''No tweets found for this keyword!''], s2)
     \<and> heap s2 (analysis_df s2) = Timed
          [\<lparr>created_at = 2, text = ''p'', Polarity = 2/10, Sentiment = Positive, Time = 2\<rparr>]
     \<and> main_content s2 = main_content s1
     \<and> map_sum id (map_option total) (main_content s2) = Inr (Some 1)"
proof -
  obtain s1 where r1: "run_analysis ex_classify (ex_controls ''p'' (1/10)) (init ex_corpus) = Inr ([], s1)"
    by (simp add: run_defs ex_controls_def ex_corpus_def)
  have a1: "heap s1 (analysis_df s1) = Timed
          [\<lparr>created_at = 2, text = ''p'', Polarity = 2/10, Sentiment = Positive, Time = 2\<rparr>]"
    using r1 by (auto simp add: run_defs ex_controls_def ex_corpus_def ex_classify_def)
  have wf: "wf_state s1"
    using wf_state_run_analysis [OF wf_state_init r1] .
  have h: "heap s1 (tweets_df s1) = Raw ex_corpus"
    using r1 by (auto simp add: run_defs ex_controls_def ex_corpus_def)
  have f: "keyword_filter (keyword (ex_controls ''q'' (1/10))) (tweet_count (ex_controls ''q'' (1/10)))
             ex_corpus = Inr []"
    by (simp add: keyword_filter_def re_compile_def ex_corpus_def ex_controls_def
          special_chars_def repeat_chars_def lower_def)
  have r: "run_clicked (ex_controls ''q'' (1/10)) \<or> auto_refresh (ex_controls ''q'' (1/10))"
    by (simp add: ex_controls_def)
  obtain s2 where r2: "run_analysis ex_classify (ex_controls ''q'' (1/10)) s1
         = Inr ([Error ''No tweets found for this keyword!''], s2)"
    and k: "heap s2 (analysis_df s2) = heap s1 (analysis_df s1)" "main_content s2 = main_content s1"
    using run_analysis_no_match_keeps_result [OF r h f wf, of ex_classify] by blast
  have m: "map_sum id (map_option total) (main_content s1) = Inr (Some 1)"
    using a1 by (simp add: main_content_def summarise_def)
  show ?thesis
    using r1 r2 k a1 m by auto
qed

text \<open>
  Claim C6 (the append rejects empty and whitespace-only text with an invalid-input
  signal). The code differs on both counts: a text of two spaces is appended to the
  corpus like any other, with the notice \<open>Tweet added!\<close>, and the empty text is left
  out without any signal.
\<close>

theorem sidebar_accepts_whitespace_text:
  "list_all isspace ''  ''
   \<and> map_sum id (\<lambda>(ev, s'). (ev, heap s' (tweets_df s'))) (sidebar (ex_add ''  '') (init ex_corpus))
       = Inr ([Success ''Tweet added!''], Raw (ex_corpus @ [\<lparr>created_at = 9, text = ''  ''\<rparr>]))
   \<and> sidebar (ex_add []) (init ex_corpus) = Inr ([], init ex_corpus)"
  by (simp add: isspace_def sidebar_def ex_add_def init_def concat_row_def alloc_def)

text \<open>
  Claim C6, as the code has it. When the add button is clicked with a text that is
  not empty, the corpus becomes the old records followed by the new one (so the new
  record is at the next position), the notice \<open>Tweet added!\<close> is shown, and the
  objects that existed and the stored result are as before. When the button is not
  clicked or the text is empty, nothing is shown and the state is unchanged.
\<close>

theorem sidebar_appends_nonempty_text:
  assumes "heap s (tweets_df s) = Raw rows"
  shows "(add_tweet_clicked c \<and> custom_tweet c \<noteq> [] \<longrightarrow>
            (\<exists>s'. sidebar c s = Inr ([Success ''Tweet added!''], s')
               \<and> heap s' (tweets_df s')
                   = Raw (rows @ [\<lparr>created_at = now c, text = custom_tweet c\<rparr>])
               \<and> (\<forall>a. a < fresh s \<longrightarrow> heap s' a = heap s a)
               \<and> analysis_df s' = analysis_df s))
         \<and> (\<not> add_tweet_clicked c \<or> custom_tweet c = [] \<longrightarrow> sidebar c s = Inr ([], s))"
  using assms by (auto simp add: sidebar_def concat_row_def alloc_def)

theorem sidebar_appends_nonempty_text_witness:
  "(\<exists>s'. sidebar (ex_add ''Tesla rocks'') (init ex_corpus) = Inr ([Success ''Tweet added!''], s')
      \<and> heap s' (tweets_df s') = Raw (ex_corpus @ [\<lparr>created_at = 9, text = ''Tesla rocks''\<rparr>])
      \<and> length ex_corpus = 3
      \<and> (ex_corpus @ [\<lparr>created_at = 9, text = ''Tesla rocks''\<rparr>]) ! 3
           = \<lparr>created_at = 9, text = ''Tesla rocks''\<rparr>)
   \<and> sidebar (ex_add []) (init ex_corpus) = Inr ([], init ex_corpus)"
proof -
  have h: "heap (init ex_corpus) (tweets_df (init ex_corpus)) = Raw ex_corpus"
    by (simp add: init_def)
  have a: "add_tweet_clicked (ex_add ''Tesla rocks'') \<and> custom_tweet (ex_add ''Tesla rocks'') \<noteq> []"
    by (simp add: ex_add_def)
  have b: "custom_tweet (ex_add []) = []"
    by (simp add: ex_add_def)
  have n: "now (ex_add ''Tesla rocks'') = 9" "custom_tweet (ex_add ''Tesla rocks'') = ''Tesla rocks''"
    by (simp_all add: ex_add_def)
  have 1: "\<exists>s'. sidebar (ex_add ''Tesla rocks'') (init ex_corpus) = Inr ([Success ''Tweet added!''], s')
      \<and> heap s' (tweets_df s') = Raw (ex_corpus @ [\<lparr>created_at = 9, text = ''Tesla rocks''\<rparr>])"
    using sidebar_appends_nonempty_text [OF h, of "ex_add ''Tesla rocks''"] a n by auto
  have 2: "sidebar (ex_add []) (init ex_corpus) = Inr ([], init ex_corpus)"
    using sidebar_appends_nonempty_text [OF h, of "ex_add []"] b by simp
  show ?thesis
    using 1 2 by (auto simp add: ex_corpus_def)
qed

text \<open>
  Claim C3 (the ranking sorts the classified subset and returns all records when
  there are fewer than \<open>k\<close>). The code ranks only the rows labelled Positive, or
  Negative: of a result with one Positive and one Neutral row, fewer than 5, the top
  positive list holds the Positive row alone and the top negative list is empty.
\<close>

theorem top_positive_only_positive_rows:
  "ex_scored [''p'', ''z'']
     = [\<lparr>created_at = 1, text = ''p'', Polarity = 2/10, Sentiment = Positive, Time = 1\<rparr>,
        \<lparr>created_at = 2, text = ''z'', Polarity = 0, Sentiment = Neutral, Time = 2\<rparr>]
   \<and> length (ex_scored [''p'', ''z'']) < 5
   \<and> top_positive (ex_scored [''p'', ''z''])
       = [\<lparr>created_at = 1, text = ''p'', Polarity = 2/10, Sentiment = Positive, Time = 1\<rparr>]
   \<and> top_negative (ex_scored [''p'', ''z'']) = []"
  by (simp add: ex_scored_def with_time_def analyze_def ex_classify_def sentiment_of_def
        top_positive_def top_negative_def sort_values_def)

text \<open>
  Claim C3, as the code has it. The top positive list is the first 5 of an
  arrangement of the Positive rows in descending order of polarity: it has 5 rows, or
  all the Positive rows when they are fewer, and every row left out comes after it in
  that order. The top negative list is the same for the Negative rows in ascending
  order. The number 5 is fixed. (Which of two rows of equal polarity comes first is
  not stated: the sort of the data frame promises no order among them.)
\<close>

theorem top_positive_negative_ranked:
  "(\<exists>rest. mset (top_positive df @ rest) = mset (filter (\<lambda>r. Sentiment r = Positive) df)
       \<and> sorted (rev (map Polarity (top_positive df @ rest))))
   \<and> length (top_positive df) = min 5 (length (filter (\<lambda>r. Sentiment r = Positive) df))
   \<and> (\<exists>rest. mset (top_negative df @ rest) = mset (filter (\<lambda>r. Sentiment r = Negative) df)
       \<and> sorted (map Polarity (top_negative df @ rest)))
   \<and> length (top_negative df) = min 5 (length (filter (\<lambda>r. Sentiment r = Negative) df))"
proof -
  let ?P = "sort_values Polarity False (filter (\<lambda>r. Sentiment r = Positive) df)"
  let ?N = "sort_values Polarity True (filter (\<lambda>r. Sentiment r = Negative) df)"
  have p: "top_positive df @ drop 5 ?P = ?P"
    by (simp add: top_positive_def)
  have n: "top_negative df @ drop 5 ?N = ?N"
    by (simp add: top_negative_def)
  have 1: "mset (top_positive df @ drop 5 ?P) = mset (filter (\<lambda>r. Sentiment r = Positive) df)
           \<and> sorted (rev (map Polarity (top_positive df @ drop 5 ?P)))"
    unfolding p by (simp only: mset_sort_values sorted_sort_values_desc)
  have 2: "mset (top_negative df @ drop 5 ?N) = mset (filter (\<lambda>r. Sentiment r = Negative) df)
           \<and> sorted (map Polarity (top_negative df @ drop 5 ?N))"
    unfolding n by (simp only: mset_sort_values sorted_sort_values_asc)
  have 3: "length (top_positive df) = min 5 (length (filter (\<lambda>r. Sentiment r = Positive) df))"
    by (simp add: top_positive_def length_sort_values min.commute)
  have 4: "length (top_negative df) = min 5 (length (filter (\<lambda>r. Sentiment r = Negative) df))"
    by (simp add: top_negative_def length_sort_values min.commute)
  show ?thesis
    using 1 2 3 4 by blast
qed

end
